theory Spec2Isabelle
  imports Complex_Main
begin

section \<open>Data model of the snapping engine (src/app/page.tsx)\<close>

text \<open>
  The snapping engine of the PDF canvas editor consists of three closures of the
  \<^verbatim>\<open>PDFCanvasEditor\<close> component: \<^verbatim>\<open>snapToValue\<close>, \<^verbatim>\<open>getSnapPoints\<close> and
  \<^verbatim>\<open>applySnapping\<close>. They read the component state (\<^verbatim>\<open>snapEnabled\<close>,
  \<^verbatim>\<open>canvasSize\<close>, \<^verbatim>\<open>canvasImages\<close>), which is passed explicitly here.

  A JavaScript \<^verbatim>\<open>number\<close> is modelled as an exact rational: every finite double is
  a rational, and the arithmetic of the engine (sums, differences, halving, absolute
  value, comparison) is taken without rounding. \<^verbatim>\<open>NaN\<close> and the infinities are not
  values of this model; the one infinity the code uses, the initial \<^verbatim>\<open>minDistance\<close>,
  is the value \<open>None\<close> of an option. Where a statement speaks of every call, also of
  one with a coordinate that is not finite, it is settled on a second transcription of
  the engine, over numbers that have \<^verbatim>\<open>NaN\<close> and the infinities (further down).
\<close>

type_synonym number = rat

text \<open>
  The records take the type of their numeric fields as a parameter, so that the same
  shapes serve the engine on rationals and, further down, the engine on JavaScript
  numbers with \<^verbatim>\<open>NaN\<close> and the infinities.
\<close>

text \<open>\<^verbatim>\<open>interface CanvasImage\<close>; the optional crop fields are options.\<close>

record 'n CanvasImageT =
  img_id :: string
  img_src :: string
  img_x :: 'n
  img_y :: 'n
  img_width :: 'n
  img_height :: 'n
  img_scaleX :: 'n
  img_scaleY :: 'n
  img_rotation :: 'n
  img_cropX :: "'n option"
  img_cropY :: "'n option"
  img_cropWidth :: "'n option"
  img_cropHeight :: "'n option"

text \<open>The value of \<^verbatim>\<open>useState({ width: 800, height: 600 })\<close>.\<close>

record 'n CanvasSizeT =
  cs_width :: 'n
  cs_height :: 'n

text \<open>The object literal \<^verbatim>\<open>{ vertical: [...], horizontal: [...] }\<close>; also the shape of
  \<^verbatim>\<open>activeSnapGuides\<close>, whose fields are called \<^verbatim>\<open>x\<close> and \<^verbatim>\<open>y\<close> there.\<close>

record 'n SnapPointsT =
  vertical :: "'n list"
  horizontal :: "'n list"

text \<open>The result \<^verbatim>\<open>{ x, y }\<close> of \<^verbatim>\<open>applySnapping\<close>.\<close>

record 'n PositionT =
  pos_x :: 'n
  pos_y :: 'n

text \<open>An element \<^verbatim>\<open>{ x, y, priority }\<close> of \<^verbatim>\<open>snapScenarios\<close>.\<close>

record 'n SnapScenarioT =
  sc_x :: 'n
  sc_y :: 'n
  priority :: 'n

text \<open>The part of the component state that the editor's canvas logic holds.\<close>

record 'n EditorT =
  canvasImages :: "'n CanvasImageT list"
  selectedImageId :: "string option"
  cropMode :: bool
  snapEnabled :: bool
  activeSnapGuides :: "'n SnapPointsT"
  multiSelectMode :: bool
  canvasSize :: "'n CanvasSizeT"

type_synonym CanvasImage = "number CanvasImageT"
type_synonym CanvasSize = "number CanvasSizeT"
type_synonym SnapPoints = "number SnapPointsT"
type_synonym Position = "number PositionT"
type_synonym SnapScenario = "number SnapScenarioT"
type_synonym Editor = "number EditorT"

section \<open>The engine\<close>

text \<open>\<^verbatim>\<open>const SNAP_TOLERANCE = 10;\<close>\<close>

definition SNAP_TOLERANCE :: number where
  "SNAP_TOLERANCE = 10"

text \<open>
  \<^verbatim>\<open>snapToValue(value, snapPoints, tolerance = SNAP_TOLERANCE)\<close>: the \<^verbatim>\<open>for ... of\<close>
  loop returns from inside at the first point within the tolerance.
\<close>

fun snapToValue :: "number \<Rightarrow> number list \<Rightarrow> number \<Rightarrow> number" where
  "snapToValue v [] tolerance = v"
| "snapToValue v (point # snapPoints) tolerance =
     (if \<bar>v - point\<bar> \<le> tolerance then point else snapToValue v snapPoints tolerance)"

text \<open>The body of the \<^verbatim>\<open>forEach\<close> of \<^verbatim>\<open>getSnapPoints\<close>: six \<^verbatim>\<open>push\<close> calls.\<close>

definition push :: "'a list \<Rightarrow> 'a \<Rightarrow> 'a list" where
  "push xs v = xs @ [v]"

definition pushImagePoints :: "SnapPoints \<Rightarrow> CanvasImage \<Rightarrow> SnapPoints" where
  "pushImagePoints snapPoints img =
     (let s1 = snapPoints\<lparr>vertical := push (vertical snapPoints) (img_x img)\<rparr>;
          s2 = s1\<lparr>vertical := push (vertical s1) (img_x img + img_width img / 2)\<rparr>;
          s3 = s2\<lparr>vertical := push (vertical s2) (img_x img + img_width img)\<rparr>;
          s4 = s3\<lparr>horizontal := push (horizontal s3) (img_y img)\<rparr>;
          s5 = s4\<lparr>horizontal := push (horizontal s4) (img_y img + img_height img / 2)\<rparr>
      in s5\<lparr>horizontal := push (horizontal s5) (img_y img + img_height img)\<rparr>)"

text \<open>
  \<^verbatim>\<open>getSnapPoints(excludeId?: string)\<close>. An omitted argument is \<open>None\<close>
  (\<^verbatim>\<open>undefined\<close>), which \<^verbatim>\<open>!==\<close> tells apart from every id.
\<close>

definition getSnapPoints :: "Editor \<Rightarrow> string option \<Rightarrow> SnapPoints" where
  "getSnapPoints st excludeId =
     foldl pushImagePoints
       \<lparr>vertical = [0, cs_width (canvasSize st), cs_width (canvasSize st) / 2],
        horizontal = [0, cs_height (canvasSize st), cs_height (canvasSize st) / 2]\<rparr>
       (filter (\<lambda>img. Some (img_id img) \<noteq> excludeId) (canvasImages st))"

text \<open>The array literal \<^verbatim>\<open>snapScenarios\<close> of \<^verbatim>\<open>applySnapping\<close>, in its order.\<close>

definition snapScenarios ::
  "SnapPoints \<Rightarrow> number \<Rightarrow> number \<Rightarrow> number \<Rightarrow> number \<Rightarrow> SnapScenario list" where
  "snapScenarios snapPoints newX newY width height =
     (let left = newX;
          right = newX + width;
          centerX = newX + width / 2;
          top = newY;
          bottom = newY + height;
          centerY = newY + height / 2
      in [\<lparr>sc_x = snapToValue left (vertical snapPoints) SNAP_TOLERANCE,
           sc_y = snapToValue top (horizontal snapPoints) SNAP_TOLERANCE,
           priority = 1\<rparr>,
          \<lparr>sc_x = snapToValue right (vertical snapPoints) SNAP_TOLERANCE - width,
           sc_y = snapToValue top (horizontal snapPoints) SNAP_TOLERANCE,
           priority = 1\<rparr>,
          \<lparr>sc_x = snapToValue centerX (vertical snapPoints) SNAP_TOLERANCE - width / 2,
           sc_y = snapToValue centerY (horizontal snapPoints) SNAP_TOLERANCE - height / 2,
           priority = 2\<rparr>,
          \<lparr>sc_x = snapToValue left (vertical snapPoints) SNAP_TOLERANCE,
           sc_y = snapToValue bottom (horizontal snapPoints) SNAP_TOLERANCE - height,
           priority = 1\<rparr>])"

text \<open>
  The two variables the selection loop assigns: \<^verbatim>\<open>bestSnap\<close> and \<^verbatim>\<open>minDistance\<close>,
  the latter \<open>None\<close> while it is still \<^verbatim>\<open>Infinity\<close>.
\<close>

record Best =
  bestSnap :: Position
  minDistance :: "number option"

text \<open>\<^verbatim>\<open>adjustedDistance < minDistance\<close>, where everything is below \<^verbatim>\<open>Infinity\<close>.\<close>

definition belowMin :: "number \<Rightarrow> number option \<Rightarrow> bool" where
  "belowMin d m = (case m of None \<Rightarrow> True | Some m' \<Rightarrow> d < m')"

text \<open>The body of \<^verbatim>\<open>snapScenarios.forEach(scenario => ...)\<close>.\<close>

definition considerScenario :: "number \<Rightarrow> number \<Rightarrow> Best \<Rightarrow> SnapScenario \<Rightarrow> Best" where
  "considerScenario newX newY best scenario =
     (let distanceX = \<bar>sc_x scenario - newX\<bar>;
          distanceY = \<bar>sc_y scenario - newY\<bar>;
          totalDistance = distanceX + distanceY
      in if distanceX \<le> SNAP_TOLERANCE \<or> distanceY \<le> SNAP_TOLERANCE
         then (let adjustedDistance = totalDistance + (priority scenario - 1) * 5
               in if belowMin adjustedDistance (minDistance best) \<and> adjustedDistance < 50
                  then \<lparr>bestSnap = \<lparr>pos_x = sc_x scenario, pos_y = sc_y scenario\<rparr>,
                        minDistance = Some adjustedDistance\<rparr>
                  else best)
         else best)"

text \<open>The loop, from \<^verbatim>\<open>bestSnap = { x: newX, y: newY }\<close> and \<^verbatim>\<open>minDistance = Infinity\<close>.\<close>

definition selectBest :: "number \<Rightarrow> number \<Rightarrow> SnapScenario list \<Rightarrow> Best" where
  "selectBest newX newY scenarios =
     foldl (considerScenario newX newY)
       \<lparr>bestSnap = \<lparr>pos_x = newX, pos_y = newY\<rparr>, minDistance = None\<rparr> scenarios"

text \<open>
  \<^verbatim>\<open>applySnapping(imageId, newX, newY, width, height)\<close>. A number is falsy when it is
  zero. The object that \<^verbatim>\<open>getSnapPoints\<close> returns and its two arrays are always truthy,
  so the second early return is never taken, and nothing in the \<^verbatim>\<open>try\<close> block throws
  on numbers, so neither is the \<^verbatim>\<open>catch\<close>; both would return the proposed position.
\<close>

definition applySnapping ::
  "Editor \<Rightarrow> string \<Rightarrow> number \<Rightarrow> number \<Rightarrow> number \<Rightarrow> number \<Rightarrow> Position" where
  "applySnapping st imageId newX newY width height =
     (if \<not> snapEnabled st \<or> cs_width (canvasSize st) = 0 \<or> cs_height (canvasSize st) = 0
      then \<lparr>pos_x = newX, pos_y = newY\<rparr>
      else (let snapPoints = getSnapPoints st (Some imageId)
            in bestSnap (selectBest newX newY
                 (snapScenarios snapPoints newX newY width height))))"

section \<open>The specification's description of the engine\<close>

text \<open>
  The provider as the specification words it (section 4.1): the three canvas points
  of an axis, then for every placed object other than \<open>excludeId\<close> its left edge,
  horizontal center and right edge on the vertical axis, and its top edge, vertical
  center and bottom edge on the horizontal axis.
\<close>

definition imageVertical :: "CanvasImage \<Rightarrow> number list" where
  "imageVertical obj = [img_x obj, img_x obj + img_width obj / 2, img_x obj + img_width obj]"

definition imageHorizontal :: "CanvasImage \<Rightarrow> number list" where
  "imageHorizontal obj = [img_y obj, img_y obj + img_height obj / 2, img_y obj + img_height obj]"

definition providerSpec ::
  "number \<Rightarrow> number \<Rightarrow> string option \<Rightarrow> CanvasImage list \<Rightarrow> SnapPoints" where
  "providerSpec canvasWidth canvasHeight excludeId objects =
     \<lparr>vertical = [0, canvasWidth, canvasWidth / 2] @
        concat (map imageVertical (filter (\<lambda>obj. Some (img_id obj) \<noteq> excludeId) objects)),
      horizontal = [0, canvasHeight, canvasHeight / 2] @
        concat (map imageHorizontal (filter (\<lambda>obj. Some (img_id obj) \<noteq> excludeId) objects))\<rparr>"

text \<open>
  The resolver's steps 5 and 6 as the specification words them: a scenario is eligible
  when \<open>distanceX \<le> tolerance\<close> or \<open>distanceY \<le> tolerance\<close>, and its score is
  \<open>(distanceX + distanceY) + (priority - 1) * 5\<close>.
\<close>

definition scenarioEligible :: "number \<Rightarrow> number \<Rightarrow> number \<Rightarrow> SnapScenario \<Rightarrow> bool" where
  "scenarioEligible tolerance proposedX proposedY scenario =
     (\<bar>sc_x scenario - proposedX\<bar> \<le> tolerance \<or> \<bar>sc_y scenario - proposedY\<bar> \<le> tolerance)"

definition scenarioScore :: "number \<Rightarrow> number \<Rightarrow> SnapScenario \<Rightarrow> number" where
  "scenarioScore proposedX proposedY scenario =
     (\<bar>sc_x scenario - proposedX\<bar> + \<bar>sc_y scenario - proposedY\<bar>) + (priority scenario - 1) * 5"

text \<open>A scenario the loop can keep: eligible, and of a score below the ceiling 50.\<close>

definition acceptable :: "number \<Rightarrow> number \<Rightarrow> SnapScenario \<Rightarrow> bool" where
  "acceptable proposedX proposedY scenario =
     (scenarioEligible SNAP_TOLERANCE proposedX proposedY scenario \<and>
      scenarioScore proposedX proposedY scenario < 50)"

text \<open>The position \<^verbatim>\<open>{ x: scenario.x, y: scenario.y }\<close> a kept scenario yields.\<close>

definition scenarioPosition :: "SnapScenario \<Rightarrow> Position" where
  "scenarioPosition scenario = \<lparr>pos_x = sc_x scenario, pos_y = sc_y scenario\<rparr>"

text \<open>
  The resolver's step 7 as the specification words it, as a relation between the
  scenarios and the result: the eligible scenario of least score if that score is
  below 50, the proposed position if there is none.
\<close>

definition selectionRule :: "number \<Rightarrow> number \<Rightarrow> SnapScenario list \<Rightarrow> Position \<Rightarrow> bool" where
  "selectionRule proposedX proposedY scenarios result =
     (if \<exists>s\<in>set scenarios. scenarioEligible SNAP_TOLERANCE proposedX proposedY s \<and>
           scenarioScore proposedX proposedY s < 50
      then \<exists>s\<in>set scenarios.
             scenarioEligible SNAP_TOLERANCE proposedX proposedY s \<and>
             scenarioScore proposedX proposedY s < 50 \<and>
             (\<forall>s'\<in>set scenarios. scenarioEligible SNAP_TOLERANCE proposedX proposedY s' \<longrightarrow>
                scenarioScore proposedX proposedY s \<le> scenarioScore proposedX proposedY s') \<and>
             result = scenarioPosition s
      else result = \<lparr>pos_x = proposedX, pos_y = proposedY\<rparr>)"

text \<open>The four scenarios of one call of \<^verbatim>\<open>applySnapping\<close> that passes its first guard.\<close>

definition callScenarios ::
  "Editor \<Rightarrow> string \<Rightarrow> number \<Rightarrow> number \<Rightarrow> number \<Rightarrow> number \<Rightarrow> SnapScenario list" where
  "callScenarios st imageId newX newY width height =
     snapScenarios (getSnapPoints st (Some imageId)) newX newY width height"

section \<open>Editor states for the examples\<close>

text \<open>
  The object literal of \<^verbatim>\<open>addImageToCanvas\<close> (scale 1, rotation 0, no crop), with
  its generated id, its data URL, its random position and the scaled page size as
  parameters.
\<close>

definition newImage ::
  "string \<Rightarrow> string \<Rightarrow> number \<Rightarrow> number \<Rightarrow> number \<Rightarrow> number \<Rightarrow> CanvasImage" where
  "newImage i src x y w h =
     \<lparr>img_id = i, img_src = src, img_x = x, img_y = y, img_width = w, img_height = h,
      img_scaleX = 1, img_scaleY = 1, img_rotation = 0,
      img_cropX = None, img_cropY = None, img_cropWidth = None, img_cropHeight = None\<rparr>"

text \<open>The initial values of the \<^verbatim>\<open>useState\<close> calls.\<close>

definition initialEditor :: Editor where
  "initialEditor =
     \<lparr>canvasImages = [], selectedImageId = None, cropMode = False, snapEnabled = True,
      activeSnapGuides = \<lparr>vertical = [], horizontal = []\<rparr>, multiSelectMode = True,
      canvasSize = \<lparr>cs_width = 800, cs_height = 600\<rparr>\<rparr>"

text \<open>\<^verbatim>\<open>setCanvasImages(prev => [...prev, newImage])\<close>\<close>

definition addImage :: "Editor \<Rightarrow> CanvasImage \<Rightarrow> Editor" where
  "addImage st img = st\<lparr>canvasImages := canvasImages st @ [img]\<rparr>"

section \<open>The engine on JavaScript numbers with NaN and the infinities\<close>

text \<open>
  A proposed coordinate can be any JavaScript number, also \<^verbatim>\<open>NaN\<close> or an infinity,
  and the engine behaves differently there: every comparison with \<^verbatim>\<open>NaN\<close> is false.
  For the claim that speaks of every call the engine is therefore transcribed a second
  time over a number type that has these values. Finite values are rationals and their
  arithmetic is exact (no rounding, no overflow); a negative zero is not told apart
  from zero.
\<close>

datatype jsNumber = Finite rat | PosInfinity | NegInfinity | NaN

fun jsNeg :: "jsNumber \<Rightarrow> jsNumber" where
  "jsNeg (Finite a) = Finite (- a)"
| "jsNeg PosInfinity = NegInfinity"
| "jsNeg NegInfinity = PosInfinity"
| "jsNeg NaN = NaN"

fun jsAdd :: "jsNumber \<Rightarrow> jsNumber \<Rightarrow> jsNumber" where
  "jsAdd (Finite a) (Finite b) = Finite (a + b)"
| "jsAdd NaN _ = NaN"
| "jsAdd _ NaN = NaN"
| "jsAdd PosInfinity NegInfinity = NaN"
| "jsAdd NegInfinity PosInfinity = NaN"
| "jsAdd PosInfinity _ = PosInfinity"
| "jsAdd _ PosInfinity = PosInfinity"
| "jsAdd NegInfinity _ = NegInfinity"
| "jsAdd _ NegInfinity = NegInfinity"

definition jsSub :: "jsNumber \<Rightarrow> jsNumber \<Rightarrow> jsNumber" where
  "jsSub a b = jsAdd a (jsNeg b)"

text \<open>\<^verbatim>\<open>Math.abs\<close>\<close>

fun jsAbs :: "jsNumber \<Rightarrow> jsNumber" where
  "jsAbs (Finite a) = Finite \<bar>a\<bar>"
| "jsAbs PosInfinity = PosInfinity"
| "jsAbs NegInfinity = PosInfinity"
| "jsAbs NaN = NaN"

fun jsMul :: "jsNumber \<Rightarrow> jsNumber \<Rightarrow> jsNumber" where
  "jsMul (Finite a) (Finite b) = Finite (a * b)"
| "jsMul NaN _ = NaN"
| "jsMul _ NaN = NaN"
| "jsMul PosInfinity (Finite b) =
     (if b = 0 then NaN else if 0 < b then PosInfinity else NegInfinity)"
| "jsMul NegInfinity (Finite b) =
     (if b = 0 then NaN else if 0 < b then NegInfinity else PosInfinity)"
| "jsMul (Finite a) PosInfinity =
     (if a = 0 then NaN else if 0 < a then PosInfinity else NegInfinity)"
| "jsMul (Finite a) NegInfinity =
     (if a = 0 then NaN else if 0 < a then NegInfinity else PosInfinity)"
| "jsMul PosInfinity PosInfinity = PosInfinity"
| "jsMul PosInfinity NegInfinity = NegInfinity"
| "jsMul NegInfinity PosInfinity = NegInfinity"
| "jsMul NegInfinity NegInfinity = PosInfinity"

fun jsDiv :: "jsNumber \<Rightarrow> jsNumber \<Rightarrow> jsNumber" where
  "jsDiv (Finite a) (Finite b) =
     (if b \<noteq> 0 then Finite (a / b)
      else if a = 0 then NaN else if 0 < a then PosInfinity else NegInfinity)"
| "jsDiv NaN _ = NaN"
| "jsDiv _ NaN = NaN"
| "jsDiv (Finite a) _ = Finite 0"
| "jsDiv PosInfinity (Finite b) = (if 0 \<le> b then PosInfinity else NegInfinity)"
| "jsDiv NegInfinity (Finite b) = (if 0 \<le> b then NegInfinity else PosInfinity)"
| "jsDiv _ _ = NaN"

text \<open>\<^verbatim>\<open><=\<close> and \<^verbatim>\<open><\<close>: false whenever an operand is \<^verbatim>\<open>NaN\<close>.\<close>

fun jsLe :: "jsNumber \<Rightarrow> jsNumber \<Rightarrow> bool" where
  "jsLe (Finite a) (Finite b) = (a \<le> b)"
| "jsLe NaN _ = False"
| "jsLe _ NaN = False"
| "jsLe NegInfinity _ = True"
| "jsLe _ PosInfinity = True"
| "jsLe _ _ = False"

fun jsLt :: "jsNumber \<Rightarrow> jsNumber \<Rightarrow> bool" where
  "jsLt (Finite a) (Finite b) = (a < b)"
| "jsLt NaN _ = False"
| "jsLt _ NaN = False"
| "jsLt PosInfinity _ = False"
| "jsLt _ NegInfinity = False"
| "jsLt _ _ = True"

text \<open>\<^verbatim>\<open>!n\<close> for a number: true for zero and for \<^verbatim>\<open>NaN\<close>.\<close>

fun jsFalsy :: "jsNumber \<Rightarrow> bool" where
  "jsFalsy (Finite a) = (a = 0)"
| "jsFalsy NaN = True"
| "jsFalsy _ = False"

type_synonym CanvasImageJS = "jsNumber CanvasImageT"
type_synonym SnapPointsJS = "jsNumber SnapPointsT"
type_synonym PositionJS = "jsNumber PositionT"
type_synonym SnapScenarioJS = "jsNumber SnapScenarioT"
type_synonym EditorJS = "jsNumber EditorT"

text \<open>
  The engine again, line for line as in the section above, with the operations of
  \<open>jsNumber\<close> in place of those of the rationals: \<^verbatim>\<open>SNAP_TOLERANCE\<close>,
  \<^verbatim>\<open>snapToValue\<close>, the body of the \<^verbatim>\<open>forEach\<close> of \<^verbatim>\<open>getSnapPoints\<close>,
  \<^verbatim>\<open>getSnapPoints\<close>, the array \<^verbatim>\<open>snapScenarios\<close>, the selection loop and
  \<^verbatim>\<open>applySnapping\<close>, whose guard \<^verbatim>\<open>!canvasSize.width\<close> also holds for \<^verbatim>\<open>NaN\<close>.
\<close>

definition SNAP_TOLERANCE_JS :: jsNumber where
  "SNAP_TOLERANCE_JS = Finite 10"

fun snapToValueJS :: "jsNumber \<Rightarrow> jsNumber list \<Rightarrow> jsNumber \<Rightarrow> jsNumber" where
  "snapToValueJS v [] tolerance = v"
| "snapToValueJS v (point # snapPoints) tolerance =
     (if jsLe (jsAbs (jsSub v point)) tolerance then point
      else snapToValueJS v snapPoints tolerance)"

definition pushImagePointsJS :: "SnapPointsJS \<Rightarrow> CanvasImageJS \<Rightarrow> SnapPointsJS" where
  "pushImagePointsJS snapPoints img =
     (let s1 = snapPoints\<lparr>vertical := push (vertical snapPoints) (img_x img)\<rparr>;
          s2 = s1\<lparr>vertical := push (vertical s1)
                 (jsAdd (img_x img) (jsDiv (img_width img) (Finite 2)))\<rparr>;
          s3 = s2\<lparr>vertical := push (vertical s2) (jsAdd (img_x img) (img_width img))\<rparr>;
          s4 = s3\<lparr>horizontal := push (horizontal s3) (img_y img)\<rparr>;
          s5 = s4\<lparr>horizontal := push (horizontal s4)
                 (jsAdd (img_y img) (jsDiv (img_height img) (Finite 2)))\<rparr>
      in s5\<lparr>horizontal := push (horizontal s5) (jsAdd (img_y img) (img_height img))\<rparr>)"

definition getSnapPointsJS :: "EditorJS \<Rightarrow> string option \<Rightarrow> SnapPointsJS" where
  "getSnapPointsJS st excludeId =
     foldl pushImagePointsJS
       \<lparr>vertical = [Finite 0, cs_width (canvasSize st),
                    jsDiv (cs_width (canvasSize st)) (Finite 2)],
        horizontal = [Finite 0, cs_height (canvasSize st),
                      jsDiv (cs_height (canvasSize st)) (Finite 2)]\<rparr>
       (filter (\<lambda>img. Some (img_id img) \<noteq> excludeId) (canvasImages st))"

definition snapScenariosJS ::
  "SnapPointsJS \<Rightarrow> jsNumber \<Rightarrow> jsNumber \<Rightarrow> jsNumber \<Rightarrow> jsNumber \<Rightarrow> SnapScenarioJS list" where
  "snapScenariosJS snapPoints newX newY width height =
     (let left = newX;
          right = jsAdd newX width;
          centerX = jsAdd newX (jsDiv width (Finite 2));
          top = newY;
          bottom = jsAdd newY height;
          centerY = jsAdd newY (jsDiv height (Finite 2))
      in [\<lparr>sc_x = snapToValueJS left (vertical snapPoints) SNAP_TOLERANCE_JS,
           sc_y = snapToValueJS top (horizontal snapPoints) SNAP_TOLERANCE_JS,
           priority = Finite 1\<rparr>,
          \<lparr>sc_x = jsSub (snapToValueJS right (vertical snapPoints) SNAP_TOLERANCE_JS) width,
           sc_y = snapToValueJS top (horizontal snapPoints) SNAP_TOLERANCE_JS,
           priority = Finite 1\<rparr>,
          \<lparr>sc_x = jsSub (snapToValueJS centerX (vertical snapPoints) SNAP_TOLERANCE_JS)
                    (jsDiv width (Finite 2)),
           sc_y = jsSub (snapToValueJS centerY (horizontal snapPoints) SNAP_TOLERANCE_JS)
                    (jsDiv height (Finite 2)),
           priority = Finite 2\<rparr>,
          \<lparr>sc_x = snapToValueJS left (vertical snapPoints) SNAP_TOLERANCE_JS,
           sc_y = jsSub (snapToValueJS bottom (horizontal snapPoints) SNAP_TOLERANCE_JS) height,
           priority = Finite 1\<rparr>])"

text \<open>Here \<^verbatim>\<open>minDistance\<close> starts as the value \<^verbatim>\<open>Infinity\<close> itself.\<close>

record BestJS =
  bestSnapJS :: PositionJS
  minDistanceJS :: jsNumber

definition considerScenarioJS ::
  "jsNumber \<Rightarrow> jsNumber \<Rightarrow> BestJS \<Rightarrow> SnapScenarioJS \<Rightarrow> BestJS" where
  "considerScenarioJS newX newY best scenario =
     (let distanceX = jsAbs (jsSub (sc_x scenario) newX);
          distanceY = jsAbs (jsSub (sc_y scenario) newY);
          totalDistance = jsAdd distanceX distanceY
      in if jsLe distanceX SNAP_TOLERANCE_JS \<or> jsLe distanceY SNAP_TOLERANCE_JS
         then (let adjustedDistance =
                     jsAdd totalDistance (jsMul (jsSub (priority scenario) (Finite 1)) (Finite 5))
               in if jsLt adjustedDistance (minDistanceJS best) \<and>
                     jsLt adjustedDistance (Finite 50)
                  then \<lparr>bestSnapJS = \<lparr>pos_x = sc_x scenario, pos_y = sc_y scenario\<rparr>,
                        minDistanceJS = adjustedDistance\<rparr>
                  else best)
         else best)"

definition selectBestJS :: "jsNumber \<Rightarrow> jsNumber \<Rightarrow> SnapScenarioJS list \<Rightarrow> BestJS" where
  "selectBestJS newX newY scenarios =
     foldl (considerScenarioJS newX newY)
       \<lparr>bestSnapJS = \<lparr>pos_x = newX, pos_y = newY\<rparr>, minDistanceJS = PosInfinity\<rparr> scenarios"

definition applySnappingJS ::
  "EditorJS \<Rightarrow> string \<Rightarrow> jsNumber \<Rightarrow> jsNumber \<Rightarrow> jsNumber \<Rightarrow> jsNumber \<Rightarrow> PositionJS" where
  "applySnappingJS st imageId newX newY width height =
     (if \<not> snapEnabled st \<or> jsFalsy (cs_width (canvasSize st)) \<or>
         jsFalsy (cs_height (canvasSize st))
      then \<lparr>pos_x = newX, pos_y = newY\<rparr>
      else (let snapPoints = getSnapPointsJS st (Some imageId)
            in bestSnapJS (selectBestJS newX newY
                 (snapScenariosJS snapPoints newX newY width height))))"

text \<open>Eligibility and score of the specification's steps 5 and 6, on these numbers.\<close>

definition scenarioEligibleJS ::
  "jsNumber \<Rightarrow> jsNumber \<Rightarrow> jsNumber \<Rightarrow> SnapScenarioJS \<Rightarrow> bool" where
  "scenarioEligibleJS tolerance proposedX proposedY scenario =
     (jsLe (jsAbs (jsSub (sc_x scenario) proposedX)) tolerance \<or>
      jsLe (jsAbs (jsSub (sc_y scenario) proposedY)) tolerance)"

definition scenarioScoreJS :: "jsNumber \<Rightarrow> jsNumber \<Rightarrow> SnapScenarioJS \<Rightarrow> jsNumber" where
  "scenarioScoreJS proposedX proposedY scenario =
     jsAdd (jsAdd (jsAbs (jsSub (sc_x scenario) proposedX))
                  (jsAbs (jsSub (sc_y scenario) proposedY)))
           (jsMul (jsSub (priority scenario) (Finite 1)) (Finite 5))"

definition callScenariosJS ::
  "EditorJS \<Rightarrow> string \<Rightarrow> jsNumber \<Rightarrow> jsNumber \<Rightarrow> jsNumber \<Rightarrow> jsNumber \<Rightarrow> SnapScenarioJS list" where
  "callScenariosJS st imageId newX newY width height =
     snapScenariosJS (getSnapPointsJS st (Some imageId)) newX newY width height"

text \<open>
  The state of the loop once it has kept a scenario of the set \<open>S\<close> for the finite
  proposed position \<open>(x, y)\<close>: the kept position is that of a scenario of \<open>S\<close> with
  finite coordinates, eligible, whose score is the finite \<^verbatim>\<open>minDistance\<close>, at most 20
  and at least the displacement.
\<close>

definition keptJS :: "rat \<Rightarrow> rat \<Rightarrow> SnapScenarioJS set \<Rightarrow> BestJS \<Rightarrow> bool" where
  "keptJS x y S best =
     (\<exists>s\<in>S. \<exists>rx ry m.
        sc_x s = Finite rx \<and> sc_y s = Finite ry \<and>
        bestSnapJS best = \<lparr>pos_x = Finite rx, pos_y = Finite ry\<rparr> \<and>
        scenarioEligibleJS SNAP_TOLERANCE_JS (Finite x) (Finite y) s \<and>
        scenarioScoreJS (Finite x) (Finite y) s = Finite m \<and>
        minDistanceJS best = Finite m \<and> m \<le> 20 \<and> \<bar>rx - x\<bar> + \<bar>ry - y\<bar> \<le> m)"

text \<open>The worked example's editor on these numbers: one object at (100, 100, 200, 150).\<close>

definition exampleEditorJS :: EditorJS where
  "exampleEditorJS =
     \<lparr>canvasImages =
        [\<lparr>img_id = ''img-1'', img_src = [], img_x = Finite 100, img_y = Finite 100,
          img_width = Finite 200, img_height = Finite 150,
          img_scaleX = Finite 1, img_scaleY = Finite 1, img_rotation = Finite 0,
          img_cropX = None, img_cropY = None, img_cropWidth = None, img_cropHeight = None\<rparr>],
      selectedImageId = None, cropMode = False, snapEnabled = True,
      activeSnapGuides = \<lparr>vertical = [], horizontal = []\<rparr>, multiSelectMode = True,
      canvasSize = \<lparr>cs_width = Finite 800, cs_height = Finite 600\<rparr>\<rparr>"

section \<open>The provider and the selection loop\<close>

lemma foldl_pushImagePoints:
  "foldl pushImagePoints sp imgs =
     \<lparr>vertical = vertical sp @ concat (map imageVertical imgs),
      horizontal = horizontal sp @ concat (map imageHorizontal imgs)\<rparr>"
  by (induction imgs arbitrary: sp)
     (simp_all add: pushImagePoints_def push_def imageVertical_def imageHorizontal_def)

lemma getSnapPoints_providerSpec:
  "getSnapPoints st excludeId =
     providerSpec (cs_width (canvasSize st)) (cs_height (canvasSize st)) excludeId (canvasImages st)"
  by (simp add: getSnapPoints_def providerSpec_def foldl_pushImagePoints)

lemma considerScenario_eq:
  "considerScenario newX newY best s =
     (if acceptable newX newY s \<and> belowMin (scenarioScore newX newY s) (minDistance best)
      then \<lparr>bestSnap = scenarioPosition s, minDistance = Some (scenarioScore newX newY s)\<rparr>
      else best)"
  by (auto simp add: considerScenario_def acceptable_def scenarioEligible_def scenarioScore_def
        scenarioPosition_def Let_def)

lemma foldl_considerScenario_keep:
  "\<forall>q\<in>set post. acceptable newX newY q \<longrightarrow> \<not> belowMin (scenarioScore newX newY q) (minDistance best)
   \<Longrightarrow> foldl (considerScenario newX newY) best post = best"
  by (induction post) (auto simp add: considerScenario_eq)

lemma foldl_considerScenario_min:
  "minDistance (foldl (considerScenario newX newY) best pre) = minDistance best \<or>
   (\<exists>p\<in>set pre. acceptable newX newY p \<and>
      minDistance (foldl (considerScenario newX newY) best pre) = Some (scenarioScore newX newY p))"
proof (induction pre rule: rev_induct)
  case Nil
  show ?case by simp
next
  case (snoc x xs)
  then show ?case by (auto simp add: considerScenario_eq)
qed

lemma selectBest_first_minimal:
  assumes s: "acceptable newX newY s"
    and pre: "\<forall>p\<in>set pre. acceptable newX newY p \<longrightarrow> scenarioScore newX newY s < scenarioScore newX newY p"
    and post: "\<forall>q\<in>set post. acceptable newX newY q \<longrightarrow> scenarioScore newX newY s \<le> scenarioScore newX newY q"
  shows "selectBest newX newY (pre @ s # post) =
           \<lparr>bestSnap = scenarioPosition s, minDistance = Some (scenarioScore newX newY s)\<rparr>"
proof -
  let ?init = "\<lparr>bestSnap = \<lparr>pos_x = newX, pos_y = newY\<rparr>, minDistance = None\<rparr>"
  let ?b = "foldl (considerScenario newX newY) ?init pre"
  have "belowMin (scenarioScore newX newY s) (minDistance ?b)"
    using foldl_considerScenario_min [of newX newY ?init pre] pre
    by (auto simp add: belowMin_def)
  with s have step: "considerScenario newX newY ?b s =
      \<lparr>bestSnap = scenarioPosition s, minDistance = Some (scenarioScore newX newY s)\<rparr>"
    by (simp add: considerScenario_eq)
  have "foldl (considerScenario newX newY) (considerScenario newX newY ?b s) post =
      considerScenario newX newY ?b s"
    by (rule foldl_considerScenario_keep) (use post in \<open>auto simp add: step belowMin_def\<close>)
  then show ?thesis
    by (simp add: selectBest_def step)
qed

lemma selectBest_rule:
  "(minDistance (selectBest newX newY scs) = None \<and>
      bestSnap (selectBest newX newY scs) = \<lparr>pos_x = newX, pos_y = newY\<rparr> \<and>
      (\<forall>s\<in>set scs. \<not> acceptable newX newY s)) \<or>
   (\<exists>s\<in>set scs. acceptable newX newY s \<and>
      selectBest newX newY scs =
        \<lparr>bestSnap = scenarioPosition s, minDistance = Some (scenarioScore newX newY s)\<rparr> \<and>
      (\<forall>s'\<in>set scs. acceptable newX newY s' \<longrightarrow>
          scenarioScore newX newY s \<le> scenarioScore newX newY s'))"
proof (induction scs rule: rev_induct)
  case Nil
  show ?case by (simp add: selectBest_def)
next
  case (snoc x xs)
  then show ?case
    unfolding selectBest_def
    by (auto simp add: considerScenario_eq belowMin_def)
qed

lemma snapToValue_within:
  "0 \<le> t \<Longrightarrow> \<bar>snapToValue v ps t - v\<bar> \<le> t"
  by (induction ps) auto

lemma applySnapping_enabled:
  "snapEnabled st \<Longrightarrow> cs_width (canvasSize st) \<noteq> 0 \<Longrightarrow> cs_height (canvasSize st) \<noteq> 0 \<Longrightarrow>
   applySnapping st imageId newX newY width height =
     bestSnap (selectBest newX newY (callScenarios st imageId newX newY width height))"
  by (simp add: applySnapping_def callScenarios_def)

lemma snapScenarios_priority:
  "s \<in> set (snapScenarios sp newX newY width height) \<Longrightarrow> 1 \<le> priority s"
  by (auto simp add: snapScenarios_def)

lemma scenarioScore_ge_distance:
  "1 \<le> priority s \<Longrightarrow> \<bar>sc_x s - newX\<bar> + \<bar>sc_y s - newY\<bar> \<le> scenarioScore newX newY s"
  by (simp add: scenarioScore_def)

lemma snapScenarios_hd:
  "snapScenarios sp newX newY width height =
     \<lparr>sc_x = snapToValue newX (vertical sp) SNAP_TOLERANCE,
      sc_y = snapToValue newY (horizontal sp) SNAP_TOLERANCE, priority = 1\<rparr> #
     tl (snapScenarios sp newX newY width height)"
  by (simp add: snapScenarios_def)

lemma left_edge_acceptable:
  fixes sp newX newY
  defines "s \<equiv> \<lparr>sc_x = snapToValue newX (vertical sp) SNAP_TOLERANCE,
      sc_y = snapToValue newY (horizontal sp) SNAP_TOLERANCE, priority = 1\<rparr>"
  shows "\<bar>sc_x s - newX\<bar> \<le> SNAP_TOLERANCE" "\<bar>sc_y s - newY\<bar> \<le> SNAP_TOLERANCE"
    "scenarioScore newX newY s \<le> 2 * SNAP_TOLERANCE" "acceptable newX newY s"
proof -
  have t: "0 \<le> SNAP_TOLERANCE" by (simp add: SNAP_TOLERANCE_def)
  show x: "\<bar>sc_x s - newX\<bar> \<le> SNAP_TOLERANCE"
    using snapToValue_within [OF t] by (simp add: s_def)
  show y: "\<bar>sc_y s - newY\<bar> \<le> SNAP_TOLERANCE"
    using snapToValue_within [OF t] by (simp add: s_def)
  from x y show sc: "scenarioScore newX newY s \<le> 2 * SNAP_TOLERANCE"
    by (simp add: scenarioScore_def s_def)
  from x sc show "acceptable newX newY s"
    by (simp add: acceptable_def scenarioEligible_def SNAP_TOLERANCE_def)
qed

lemmas engine_defs = applySnapping_def getSnapPoints_def pushImagePoints_def push_def
  snapScenarios_def selectBest_def considerScenario_def belowMin_def SNAP_TOLERANCE_def Let_def

lemmas fixture_defs = newImage_def initialEditor_def addImage_def

section \<open>The scalar snap function: first match\<close>

text \<open>
  Claim C6. \<^verbatim>\<open>snapToValue(v, points, t)\<close> returns the first point of the sequence that
  lies within \<open>t\<close> of \<open>v\<close>: when the points before \<open>p\<close> are all farther than \<open>t\<close>
  and \<open>p\<close> is within \<open>t\<close>, the result is \<open>p\<close>; when no point is within \<open>t\<close>, the
  result is \<open>v\<close>. The result is the one \<open>List.find\<close> gives. The first match need not
  be the nearest point: for 4 and the points 0, 5 the result is 0 although 5 is nearer.
\<close>

theorem snapToValue_first_match:
  "(points = pre @ p # post \<and> (\<forall>q\<in>set pre. \<not> \<bar>v - q\<bar> \<le> t) \<and> \<bar>v - p\<bar> \<le> t
      \<longrightarrow> snapToValue v points t = p) \<and>
   ((\<forall>q\<in>set points. \<not> \<bar>v - q\<bar> \<le> t) \<longrightarrow> snapToValue v points t = v) \<and>
   snapToValue v points t =
     (case List.find (\<lambda>q. \<bar>v - q\<bar> \<le> t) points of Some q \<Rightarrow> q | None \<Rightarrow> v) \<and>
   (snapToValue 4 [0, 5] 10 = 0 \<and> \<bar>4 - 5\<bar> < \<bar>4 - (0::number)\<bar>)"
proof (intro conjI impI)
  have skip: "snapToValue v (xs @ ys) t = snapToValue v ys t"
    if "\<forall>q\<in>set xs. \<not> \<bar>v - q\<bar> \<le> t" for xs ys
    using that by (induction xs) simp_all
  show "snapToValue v points t = p"
    if "points = pre @ p # post \<and> (\<forall>q\<in>set pre. \<not> \<bar>v - q\<bar> \<le> t) \<and> \<bar>v - p\<bar> \<le> t"
    using that skip [of pre "p # post"] by simp
  show "snapToValue v points t = v" if "\<forall>q\<in>set points. \<not> \<bar>v - q\<bar> \<le> t"
    using that skip [of points "[]"] by simp
  show "snapToValue v points t =
      (case List.find (\<lambda>q. \<bar>v - q\<bar> \<le> t) points of Some q \<Rightarrow> q | None \<Rightarrow> v)"
    by (induction points) simp_all
  show "snapToValue 4 [0, 5] 10 = 0" by simp
  show "\<bar>4 - 5\<bar> < \<bar>4 - (0::number)\<bar>" by simp
qed

theorem snapToValue_first_match_witness:
  "([0, 800, 400, 100, 200, 300] = [0, 800, 400] @ 100 # [200, 300] \<and>
      list_all (\<lambda>q. \<not> \<bar>105 - q\<bar> \<le> (10::number)) [0, 800, 400] \<and> \<bar>105 - 100\<bar> \<le> (10::number)) \<and>
   snapToValue 105 [0, 800, 400, 100, 200, 300] 10 = 100 \<and>
   snapToValue 105 [0, 800, 400] 10 = 105"
  using snapToValue_first_match [of "[0, 800, 400, 100, 200, 300]" "[0, 800, 400]" 100 "[200, 300]" 105 10]
    snapToValue_first_match [of "[0, 800, 400]" "[]" 0 "[]" 105 10]
  by simp

section \<open>Identity pass-through\<close>

text \<open>
  Claim C4. When the snap-enabled flag is false, or the canvas width is zero, or the
  canvas height is zero, \<^verbatim>\<open>applySnapping\<close> returns the proposed position unchanged,
  for every id, position and size.
\<close>

theorem applySnapping_identity:
  "\<not> snapEnabled st \<or> cs_width (canvasSize st) = 0 \<or> cs_height (canvasSize st) = 0 \<Longrightarrow>
   applySnapping st imageId x y width height = \<lparr>pos_x = x, pos_y = y\<rparr>"
  by (auto simp add: applySnapping_def)

theorem applySnapping_identity_witness:
  "\<not> snapEnabled (initialEditor\<lparr>snapEnabled := False\<rparr>) \<and>
   applySnapping (initialEditor\<lparr>snapEnabled := False\<rparr>) ''img-1'' 105 98 50 50 =
     \<lparr>pos_x = 105, pos_y = 98\<rparr> \<and>
   cs_width (canvasSize (initialEditor\<lparr>canvasSize := \<lparr>cs_width = 0, cs_height = 600\<rparr>\<rparr>)) = 0 \<and>
   applySnapping (initialEditor\<lparr>canvasSize := \<lparr>cs_width = 0, cs_height = 600\<rparr>\<rparr>) ''img-1'' 3 7 50 50 =
     \<lparr>pos_x = 3, pos_y = 7\<rparr> \<and>
   cs_height (canvasSize (initialEditor\<lparr>canvasSize := \<lparr>cs_width = 800, cs_height = 0\<rparr>\<rparr>)) = 0 \<and>
   applySnapping (initialEditor\<lparr>canvasSize := \<lparr>cs_width = 800, cs_height = 0\<rparr>\<rparr>) ''img-1'' 3 7 50 50 =
     \<lparr>pos_x = 3, pos_y = 7\<rparr>"
  using applySnapping_identity [of "initialEditor\<lparr>snapEnabled := False\<rparr>" "''img-1''" 105 98 50 50]
    applySnapping_identity [of "initialEditor\<lparr>canvasSize := \<lparr>cs_width = 0, cs_height = 600\<rparr>\<rparr>" "''img-1''" 3 7 50 50]
    applySnapping_identity [of "initialEditor\<lparr>canvasSize := \<lparr>cs_width = 800, cs_height = 0\<rparr>\<rparr>" "''img-1''" 3 7 50 50]
  by (simp add: initialEditor_def)

section \<open>The snap point provider\<close>

text \<open>
  Claim C7. For every optional \<open>excludeId\<close>, \<^verbatim>\<open>getSnapPoints(excludeId)\<close> is the
  sequence \<open>providerSpec\<close> describes: the vertical points are 0, the canvas width and
  half the canvas width, followed for each placed object whose id differs from
  \<open>excludeId\<close>, in list order, by its \<open>x\<close>, \<open>x + width/2\<close> and \<open>x + width\<close>; the
  horizontal points likewise from the canvas height and \<open>y\<close>, \<open>y + height/2\<close>,
  \<open>y + height\<close>. Nothing is removed or reordered, so duplicates stay. When there is no
  other object, each axis holds exactly the three canvas points.
\<close>

theorem getSnapPoints_construction:
  "getSnapPoints st excludeId =
     providerSpec (cs_width (canvasSize st)) (cs_height (canvasSize st)) excludeId (canvasImages st) \<and>
   ((\<forall>img\<in>set (canvasImages st). Some (img_id img) = excludeId) \<longrightarrow>
      getSnapPoints st excludeId =
        \<lparr>vertical = [0, cs_width (canvasSize st), cs_width (canvasSize st) / 2],
         horizontal = [0, cs_height (canvasSize st), cs_height (canvasSize st) / 2]\<rparr>)"
proof -
  have "filter (\<lambda>obj. Some (img_id obj) \<noteq> excludeId) (canvasImages st) = []"
    if "\<forall>img\<in>set (canvasImages st). Some (img_id img) = excludeId"
    using that by (simp add: filter_empty_conv)
  then show ?thesis
    by (simp add: getSnapPoints_def foldl_pushImagePoints providerSpec_def)
qed

theorem getSnapPoints_construction_witness:
  "list_all (\<lambda>img. Some (img_id img) = Some ''img-1'')
      (canvasImages (addImage initialEditor (newImage ''img-1'' [] 100 100 200 150))) \<and>
   getSnapPoints (addImage initialEditor (newImage ''img-1'' [] 100 100 200 150)) (Some ''img-1'') =
     \<lparr>vertical = [0, 800, 400], horizontal = [0, 600, 300]\<rparr> \<and>
   getSnapPoints (addImage initialEditor (newImage ''img-1'' [] 100 100 200 150)) None =
     \<lparr>vertical = [0, 800, 400, 100, 200, 300], horizontal = [0, 600, 300, 100, 175, 250]\<rparr>"
  using getSnapPoints_construction
      [of "addImage initialEditor (newImage ''img-1'' [] 100 100 200 150)" "Some ''img-1''"]
    getSnapPoints_construction
      [of "addImage initialEditor (newImage ''img-1'' [] 100 100 200 150)" None]
  by (simp add: fixture_defs providerSpec_def imageVertical_def imageHorizontal_def)

section \<open>The worked example\<close>

text \<open>
  Claim C1 (corrected). On an 800 by 600 canvas with snapping enabled and exactly one
  other placed object at (100, 100) of width 200 and height 150, \<^verbatim>\<open>applySnapping\<close> for
  a different object proposed at (105, 98) with width 50 and height 50 returns
  (105, 100): the right-edge scenario leaves \<open>x\<close> at 105 and moves \<open>y\<close> to 100, its
  score 2 is below the score 7 of the left-edge scenario (100, 100).
\<close>

theorem applySnapping_worked_example:
  assumes "snapEnabled st"
    and "canvasSize st = \<lparr>cs_width = 800, cs_height = 600\<rparr>"
    and "canvasImages st = [img]"
    and "img_x img = 100" and "img_y img = 100"
    and "img_width img = 200" and "img_height img = 150"
    and "img_id img \<noteq> imageId"
  shows "applySnapping st imageId 105 98 50 50 = \<lparr>pos_x = 105, pos_y = 100\<rparr>"
  using assms by (simp add: engine_defs)

theorem applySnapping_worked_example_witness:
  "snapEnabled (addImage initialEditor (newImage ''img-1'' [] 100 100 200 150)) \<and>
   canvasSize (addImage initialEditor (newImage ''img-1'' [] 100 100 200 150)) =
     \<lparr>cs_width = 800, cs_height = 600\<rparr> \<and>
   canvasImages (addImage initialEditor (newImage ''img-1'' [] 100 100 200 150)) =
     [newImage ''img-1'' [] 100 100 200 150] \<and>
   img_id (newImage ''img-1'' [] 100 100 200 150) \<noteq> ''img-2'' \<and>
   applySnapping (addImage initialEditor (newImage ''img-1'' [] 100 100 200 150))
     ''img-2'' 105 98 50 50 = \<lparr>pos_x = 105, pos_y = 100\<rparr>"
  using applySnapping_worked_example
    [of "addImage initialEditor (newImage ''img-1'' [] 100 100 200 150)"
        "newImage ''img-1'' [] 100 100 200 150" "''img-2''"]
  by (simp add: fixture_defs)

theorem applySnapping_worked_example_counterexample:
  "applySnapping (addImage initialEditor (newImage ''img-1'' [] 100 100 200 150))
     ''img-2'' 105 98 50 50 \<noteq> \<lparr>pos_x = 100, pos_y = 100\<rparr>"
  by (simp add: engine_defs fixture_defs)

section \<open>Settled positions\<close>

text \<open>
  Claim C2 (corrected). For every object id, width \<open>> 0\<close> and height \<open>> 0\<close>, if \<open>x\<close> is
  a vertical snap point and \<open>y\<close> a horizontal snap point for that id, and each is the
  first point of its sequence within the tolerance of itself
  (\<^verbatim>\<open>snapToValue(x, vertical) = x\<close> and \<^verbatim>\<open>snapToValue(y, horizontal) = y\<close>), then
  \<^verbatim>\<open>applySnapping(id, x, y, width, height)\<close> returns \<open>(x, y)\<close>.
\<close>

theorem applySnapping_settled:
  assumes "0 < width" and "0 < height"
    and "x \<in> set (vertical (getSnapPoints st (Some imageId)))"
    and "y \<in> set (horizontal (getSnapPoints st (Some imageId)))"
    and sx: "snapToValue x (vertical (getSnapPoints st (Some imageId))) SNAP_TOLERANCE = x"
    and sy: "snapToValue y (horizontal (getSnapPoints st (Some imageId))) SNAP_TOLERANCE = y"
  shows "applySnapping st imageId x y width height = \<lparr>pos_x = x, pos_y = y\<rparr>"
proof (cases "snapEnabled st \<and> cs_width (canvasSize st) \<noteq> 0 \<and> cs_height (canvasSize st) \<noteq> 0")
  case False
  then show ?thesis by (auto simp add: applySnapping_def)
next
  case True
  let ?scs = "callScenarios st imageId x y width height"
  let ?s = "\<lparr>sc_x = x, sc_y = y, priority = 1\<rparr>"
  have scs: "?scs = [] @ ?s # tl ?scs"
    using snapScenarios_hd [of "getSnapPoints st (Some imageId)" x y width height] sx sy
    by (simp add: callScenarios_def)
  have s: "acceptable x y ?s" and zero: "scenarioScore x y ?s = 0"
    by (simp_all add: acceptable_def scenarioEligible_def scenarioScore_def SNAP_TOLERANCE_def)
  have post: "\<forall>q\<in>set (tl ?scs). acceptable x y q \<longrightarrow> scenarioScore x y ?s \<le> scenarioScore x y q"
  proof (intro ballI impI)
    fix q assume "q \<in> set (tl ?scs)"
    then have "q \<in> set ?scs" by (metis list.set_sel(2) tl_Nil)
    then have "1 \<le> priority q"
      unfolding callScenarios_def by (rule snapScenarios_priority)
    from scenarioScore_ge_distance [OF this, of x y] show "scenarioScore x y ?s \<le> scenarioScore x y q"
      by (simp add: zero)
  qed
  have "selectBest x y ([] @ ?s # tl ?scs) =
      \<lparr>bestSnap = scenarioPosition ?s, minDistance = Some (scenarioScore x y ?s)\<rparr>"
    by (rule selectBest_first_minimal [OF s _ post]) simp
  with scs have "bestSnap (selectBest x y ?scs) = scenarioPosition ?s"
    by simp
  with True show ?thesis
    by (simp add: applySnapping_enabled scenarioPosition_def)
qed

theorem applySnapping_settled_witness:
  "(0::number) < 50 \<and>
   100 \<in> set (vertical (getSnapPoints
      (addImage initialEditor (newImage ''img-1'' [] 100 100 200 150)) (Some ''img-2''))) \<and>
   100 \<in> set (horizontal (getSnapPoints
      (addImage initialEditor (newImage ''img-1'' [] 100 100 200 150)) (Some ''img-2''))) \<and>
   snapToValue 100 (vertical (getSnapPoints
      (addImage initialEditor (newImage ''img-1'' [] 100 100 200 150)) (Some ''img-2'')))
      SNAP_TOLERANCE = 100 \<and>
   snapToValue 100 (horizontal (getSnapPoints
      (addImage initialEditor (newImage ''img-1'' [] 100 100 200 150)) (Some ''img-2'')))
      SNAP_TOLERANCE = 100 \<and>
   applySnapping (addImage initialEditor (newImage ''img-1'' [] 100 100 200 150))
     ''img-2'' 100 100 50 50 = \<lparr>pos_x = 100, pos_y = 100\<rparr>"
  using applySnapping_settled
    [of 50 50 100 "addImage initialEditor (newImage ''img-1'' [] 100 100 200 150)" "''img-2''" 100]
  by (simp add: getSnapPoints_def pushImagePoints_def push_def SNAP_TOLERANCE_def Let_def
        fixture_defs)

theorem applySnapping_settled_counterexample:
  "(0::number) < 50 \<and>
   5 \<in> set (vertical (getSnapPoints
      (addImage initialEditor (newImage ''img-1'' [] 5 5 200 150)) (Some ''img-2''))) \<and>
   5 \<in> set (horizontal (getSnapPoints
      (addImage initialEditor (newImage ''img-1'' [] 5 5 200 150)) (Some ''img-2''))) \<and>
   applySnapping (addImage initialEditor (newImage ''img-1'' [] 5 5 200 150))
     ''img-2'' 5 5 50 50 = \<lparr>pos_x = 5, pos_y = 0\<rparr> \<and>
   applySnapping (addImage initialEditor (newImage ''img-1'' [] 5 5 200 150))
     ''img-2'' 5 5 50 50 \<noteq> \<lparr>pos_x = 5, pos_y = 5\<rparr>"
  by (simp add: engine_defs fixture_defs)

section \<open>Self-exclusion\<close>

text \<open>
  Claim C5. The points \<^verbatim>\<open>getSnapPoints(id)\<close> returns are the points the provider
  returns for the object list from which every object with that id has been deleted,
  so none of them is contributed by the object itself. The result is the same for two
  object lists on the same canvas that differ only in the objects with that id: their
  geometry does not reach the result.
\<close>

theorem getSnapPoints_excludes_self:
  "getSnapPoints st (Some i) =
     getSnapPoints (st\<lparr>canvasImages := filter (\<lambda>img. img_id img \<noteq> i) (canvasImages st)\<rparr>) None \<and>
   (canvasSize st' = canvasSize st \<and>
    filter (\<lambda>img. img_id img \<noteq> i) (canvasImages st') =
      filter (\<lambda>img. img_id img \<noteq> i) (canvasImages st)
    \<longrightarrow> getSnapPoints st' (Some i) = getSnapPoints st (Some i))"
  by (simp add: getSnapPoints_providerSpec providerSpec_def)

theorem getSnapPoints_excludes_self_witness:
  "canvasSize (addImage (addImage initialEditor (newImage ''img-1'' [] 100 100 200 150))
      (newImage ''img-2'' [] 7 9 60 70)) =
   canvasSize (addImage (addImage initialEditor (newImage ''img-1'' [] 100 100 200 150))
      (newImage ''img-2'' [] 300 40 50 50)) \<and>
   filter (\<lambda>img. img_id img \<noteq> ''img-2'')
     (canvasImages (addImage (addImage initialEditor (newImage ''img-1'' [] 100 100 200 150))
        (newImage ''img-2'' [] 7 9 60 70))) =
   filter (\<lambda>img. img_id img \<noteq> ''img-2'')
     (canvasImages (addImage (addImage initialEditor (newImage ''img-1'' [] 100 100 200 150))
        (newImage ''img-2'' [] 300 40 50 50))) \<and>
   getSnapPoints (addImage (addImage initialEditor (newImage ''img-1'' [] 100 100 200 150))
      (newImage ''img-2'' [] 7 9 60 70)) (Some ''img-2'') =
   getSnapPoints (addImage (addImage initialEditor (newImage ''img-1'' [] 100 100 200 150))
      (newImage ''img-2'' [] 300 40 50 50)) (Some ''img-2'') \<and>
   getSnapPoints (addImage (addImage initialEditor (newImage ''img-1'' [] 100 100 200 150))
      (newImage ''img-2'' [] 300 40 50 50)) (Some ''img-2'') =
     \<lparr>vertical = [0, 800, 400, 100, 200, 300], horizontal = [0, 600, 300, 100, 175, 250]\<rparr>"
proof -
  let ?st = "addImage (addImage initialEditor (newImage ''img-1'' [] 100 100 200 150))
      (newImage ''img-2'' [] 300 40 50 50)"
  let ?st' = "addImage (addImage initialEditor (newImage ''img-1'' [] 100 100 200 150))
      (newImage ''img-2'' [] 7 9 60 70)"
  have size: "canvasSize ?st' = canvasSize ?st"
    by (simp add: fixture_defs)
  have others: "filter (\<lambda>img. img_id img \<noteq> ''img-2'') (canvasImages ?st') =
      filter (\<lambda>img. img_id img \<noteq> ''img-2'') (canvasImages ?st)"
    by (simp add: fixture_defs)
  from getSnapPoints_excludes_self [of ?st "''img-2''" ?st'] size others
  have same: "getSnapPoints ?st' (Some ''img-2'') = getSnapPoints ?st (Some ''img-2'')"
    by blast
  have "getSnapPoints ?st (Some ''img-2'') =
      \<lparr>vertical = [0, 800, 400, 100, 200, 300], horizontal = [0, 600, 300, 100, 175, 250]\<rparr>"
    by (simp add: getSnapPoints_def pushImagePoints_def push_def Let_def fixture_defs)
  with size others same show ?thesis by simp
qed

section \<open>Scenario selection\<close>

lemma selectBest_selectionRule:
  "selectionRule newX newY scs (bestSnap (selectBest newX newY scs))"
proof -
  from selectBest_rule [of newX newY scs] show ?thesis
  proof (elim disjE conjE bexE)
    assume "bestSnap (selectBest newX newY scs) = \<lparr>pos_x = newX, pos_y = newY\<rparr>"
      and "\<forall>s\<in>set scs. \<not> acceptable newX newY s"
    then show ?thesis
      by (auto simp add: selectionRule_def acceptable_def)
  next
    fix s
    assume s: "s \<in> set scs" "acceptable newX newY s"
      and best: "selectBest newX newY scs =
        \<lparr>bestSnap = scenarioPosition s, minDistance = Some (scenarioScore newX newY s)\<rparr>"
      and least: "\<forall>s'\<in>set scs. acceptable newX newY s' \<longrightarrow>
        scenarioScore newX newY s \<le> scenarioScore newX newY s'"
    have "scenarioScore newX newY s \<le> scenarioScore newX newY s'"
      if "s' \<in> set scs" "scenarioEligible SNAP_TOLERANCE newX newY s'" for s'
    proof (cases "scenarioScore newX newY s' < 50")
      case True
      with that least show ?thesis by (simp add: acceptable_def)
    next
      case False
      with s(2) show ?thesis by (simp add: acceptable_def)
    qed
    with s best show ?thesis
      unfolding selectionRule_def acceptable_def by auto
  qed
qed

text \<open>
  Claim C3. With snapping enabled and a canvas of nonzero width and height,
  \<^verbatim>\<open>applySnapping\<close> returns what the selection loop keeps of its four scenarios, and the
  loop follows \<open>selectionRule\<close>: a scenario is eligible when its distance to the
  proposed position is at most the tolerance on the \<open>x\<close> axis or on the \<open>y\<close> axis, its
  score is the sum of the two distances plus 5 for each priority level above 1, the
  result is an eligible scenario of least score if that score is below 50, and the
  proposed position otherwise. The loop follows the rule on every list of scenarios.
\<close>

theorem applySnapping_selection_rule:
  assumes "snapEnabled st"
    and "cs_width (canvasSize st) \<noteq> 0" and "cs_height (canvasSize st) \<noteq> 0"
  shows "applySnapping st imageId newX newY width height =
           bestSnap (selectBest newX newY (callScenarios st imageId newX newY width height)) \<and>
         selectionRule newX newY (callScenarios st imageId newX newY width height)
           (applySnapping st imageId newX newY width height) \<and>
         selectionRule newX newY scs (bestSnap (selectBest newX newY scs))"
  using assms by (simp add: applySnapping_enabled selectBest_selectionRule)

theorem applySnapping_selection_rule_witness:
  "snapEnabled (addImage initialEditor (newImage ''img-1'' [] 100 100 200 150)) \<and>
   cs_width (canvasSize (addImage initialEditor (newImage ''img-1'' [] 100 100 200 150))) \<noteq> 0 \<and>
   cs_height (canvasSize (addImage initialEditor (newImage ''img-1'' [] 100 100 200 150))) \<noteq> 0 \<and>
   selectionRule 105 98
     (callScenarios (addImage initialEditor (newImage ''img-1'' [] 100 100 200 150))
        ''img-2'' 105 98 50 50)
     (applySnapping (addImage initialEditor (newImage ''img-1'' [] 100 100 200 150))
        ''img-2'' 105 98 50 50) \<and>
   selectionRule 0 0
     [\<lparr>sc_x = 0, sc_y = 60, priority = 1\<rparr>, \<lparr>sc_x = 100, sc_y = 100, priority = 1\<rparr>]
     (bestSnap (selectBest 0 0
        [\<lparr>sc_x = 0, sc_y = 60, priority = 1\<rparr>, \<lparr>sc_x = 100, sc_y = 100, priority = 1\<rparr>])) \<and>
   bestSnap (selectBest 0 0
     [\<lparr>sc_x = 0, sc_y = 60, priority = 1\<rparr>, \<lparr>sc_x = 100, sc_y = 100, priority = 1\<rparr>]) =
     \<lparr>pos_x = 0, pos_y = 0\<rparr>"
proof -
  let ?st = "addImage initialEditor (newImage ''img-1'' [] 100 100 200 150)"
  let ?far = "[\<lparr>sc_x = 0, sc_y = 60, priority = 1\<rparr>, \<lparr>sc_x = 100, sc_y = 100, priority = 1\<rparr>]"
  have h1: "snapEnabled ?st" by (simp add: fixture_defs)
  have h2: "cs_width (canvasSize ?st) \<noteq> 0" by (simp add: fixture_defs)
  have h3: "cs_height (canvasSize ?st) \<noteq> 0" by (simp add: fixture_defs)
  have far: "bestSnap (selectBest 0 0 ?far) = \<lparr>pos_x = 0, pos_y = 0\<rparr>"
    by (simp add: selectBest_def considerScenario_def belowMin_def SNAP_TOLERANCE_def Let_def)
  from h1 h2 h3 far
    applySnapping_selection_rule [OF h1 h2 h3, of "''img-2''" 105 98 50 50 "[]"]
    applySnapping_selection_rule [OF h1 h2 h3, of "''img-2''" 0 0 50 50 ?far]
  show ?thesis by blast
qed

section \<open>Ties between scenarios\<close>

text \<open>
  Claim C10. \<^verbatim>\<open>applySnapping\<close> considers its four scenarios in the order left edge,
  right edge, center, bottom edge, and replaces the kept one only for a strictly smaller
  adjusted score. So with snapping enabled and a canvas of nonzero width and height, if
  the scenario at index \<open>k\<close> is eligible, no eligible scenario has a smaller adjusted
  score, and no eligible scenario before index \<open>k\<close> has the same adjusted score, then
  the result is the position of the scenario at index \<open>k\<close>: among the eligible
  scenarios of least adjusted score the earliest one wins.
\<close>

theorem applySnapping_tie_break:
  assumes "snapEnabled st"
    and "cs_width (canvasSize st) \<noteq> 0" and "cs_height (canvasSize st) \<noteq> 0"
    and k: "k < length (callScenarios st imageId newX newY width height)"
    and eligible: "scenarioEligible SNAP_TOLERANCE newX newY
        (callScenarios st imageId newX newY width height ! k)"
    and least: "\<forall>s'\<in>set (callScenarios st imageId newX newY width height).
        scenarioEligible SNAP_TOLERANCE newX newY s' \<longrightarrow>
        scenarioScore newX newY (callScenarios st imageId newX newY width height ! k)
          \<le> scenarioScore newX newY s'"
    and earliest: "\<forall>p\<in>set (take k (callScenarios st imageId newX newY width height)).
        scenarioEligible SNAP_TOLERANCE newX newY p \<longrightarrow>
        scenarioScore newX newY p \<noteq>
          scenarioScore newX newY (callScenarios st imageId newX newY width height ! k)"
  shows "callScenarios st imageId newX newY width height =
           [\<lparr>sc_x = snapToValue newX (vertical (getSnapPoints st (Some imageId))) SNAP_TOLERANCE,
             sc_y = snapToValue newY (horizontal (getSnapPoints st (Some imageId))) SNAP_TOLERANCE,
             priority = 1\<rparr>,
            \<lparr>sc_x = snapToValue (newX + width) (vertical (getSnapPoints st (Some imageId)))
                     SNAP_TOLERANCE - width,
             sc_y = snapToValue newY (horizontal (getSnapPoints st (Some imageId))) SNAP_TOLERANCE,
             priority = 1\<rparr>,
            \<lparr>sc_x = snapToValue (newX + width / 2) (vertical (getSnapPoints st (Some imageId)))
                     SNAP_TOLERANCE - width / 2,
             sc_y = snapToValue (newY + height / 2) (horizontal (getSnapPoints st (Some imageId)))
                     SNAP_TOLERANCE - height / 2,
             priority = 2\<rparr>,
            \<lparr>sc_x = snapToValue newX (vertical (getSnapPoints st (Some imageId))) SNAP_TOLERANCE,
             sc_y = snapToValue (newY + height) (horizontal (getSnapPoints st (Some imageId)))
                     SNAP_TOLERANCE - height,
             priority = 1\<rparr>] \<and>
         applySnapping st imageId newX newY width height =
           scenarioPosition (callScenarios st imageId newX newY width height ! k)"
proof
  show "callScenarios st imageId newX newY width height =
           [\<lparr>sc_x = snapToValue newX (vertical (getSnapPoints st (Some imageId))) SNAP_TOLERANCE,
             sc_y = snapToValue newY (horizontal (getSnapPoints st (Some imageId))) SNAP_TOLERANCE,
             priority = 1\<rparr>,
            \<lparr>sc_x = snapToValue (newX + width) (vertical (getSnapPoints st (Some imageId)))
                     SNAP_TOLERANCE - width,
             sc_y = snapToValue newY (horizontal (getSnapPoints st (Some imageId))) SNAP_TOLERANCE,
             priority = 1\<rparr>,
            \<lparr>sc_x = snapToValue (newX + width / 2) (vertical (getSnapPoints st (Some imageId)))
                     SNAP_TOLERANCE - width / 2,
             sc_y = snapToValue (newY + height / 2) (horizontal (getSnapPoints st (Some imageId)))
                     SNAP_TOLERANCE - height / 2,
             priority = 2\<rparr>,
            \<lparr>sc_x = snapToValue newX (vertical (getSnapPoints st (Some imageId))) SNAP_TOLERANCE,
             sc_y = snapToValue (newY + height) (horizontal (getSnapPoints st (Some imageId)))
                     SNAP_TOLERANCE - height,
             priority = 1\<rparr>]"
    by (simp add: callScenarios_def snapScenarios_def)
next
  let ?sp = "getSnapPoints st (Some imageId)"
  let ?scs = "callScenarios st imageId newX newY width height"
  let ?s = "?scs ! k"
  let ?left = "\<lparr>sc_x = snapToValue newX (vertical ?sp) SNAP_TOLERANCE,
      sc_y = snapToValue newY (horizontal ?sp) SNAP_TOLERANCE, priority = 1\<rparr>"
  have "?scs = ?left # tl ?scs"
    unfolding callScenarios_def by (rule snapScenarios_hd)
  then have mem: "?left \<in> set ?scs"
    by (metis list.set_intros(1))
  note left = left_edge_acceptable [where sp = ?sp and newX = newX and newY = newY]
  from left(4) have "scenarioEligible SNAP_TOLERANCE newX newY ?left"
    by (simp add: acceptable_def)
  with least mem left(3) have "scenarioScore newX newY ?s \<le> 2 * SNAP_TOLERANCE"
    by force
  with eligible have s: "acceptable newX newY ?s"
    by (simp add: acceptable_def SNAP_TOLERANCE_def)
  have pre: "\<forall>p\<in>set (take k ?scs). acceptable newX newY p \<longrightarrow>
      scenarioScore newX newY ?s < scenarioScore newX newY p"
  proof (intro ballI impI)
    fix p assume p: "p \<in> set (take k ?scs)" and "acceptable newX newY p"
    then have e: "scenarioEligible SNAP_TOLERANCE newX newY p"
      by (simp add: acceptable_def)
    from p have "p \<in> set ?scs" by (rule in_set_takeD)
    with least e have "scenarioScore newX newY ?s \<le> scenarioScore newX newY p" by blast
    moreover from earliest p e have "scenarioScore newX newY p \<noteq> scenarioScore newX newY ?s"
      by blast
    ultimately show "scenarioScore newX newY ?s < scenarioScore newX newY p" by simp
  qed
  have post: "\<forall>q\<in>set (drop (Suc k) ?scs). acceptable newX newY q \<longrightarrow>
      scenarioScore newX newY ?s \<le> scenarioScore newX newY q"
  proof (intro ballI impI)
    fix q assume in_post: "q \<in> set (drop (Suc k) ?scs)" and q: "acceptable newX newY q"
    from in_post have "q \<in> set ?scs" by (rule in_set_dropD)
    with least q show "scenarioScore newX newY ?s \<le> scenarioScore newX newY q"
      by (simp add: acceptable_def)
  qed
  have "selectBest newX newY (take k ?scs @ ?s # drop (Suc k) ?scs) =
      \<lparr>bestSnap = scenarioPosition ?s, minDistance = Some (scenarioScore newX newY ?s)\<rparr>"
    using s pre post by (rule selectBest_first_minimal)
  moreover have "take k ?scs @ ?s # drop (Suc k) ?scs = ?scs"
    using k by (simp add: id_take_nth_drop [symmetric])
  ultimately have "bestSnap (selectBest newX newY ?scs) = scenarioPosition ?s"
    by simp
  with assms(1-3) show "applySnapping st imageId newX newY width height = scenarioPosition ?s"
    by (simp add: applySnapping_enabled)
qed

theorem applySnapping_tie_break_witness:
  "callScenarios (addImage initialEditor (newImage ''img-1'' [] 5 5 200 150)) ''img-2'' 5 5 50 50 =
     [\<lparr>sc_x = 0, sc_y = 0, priority = 1\<rparr>, \<lparr>sc_x = 5, sc_y = 0, priority = 1\<rparr>,
      \<lparr>sc_x = 5, sc_y = 5, priority = 2\<rparr>, \<lparr>sc_x = 0, sc_y = 5, priority = 1\<rparr>] \<and>
   map (scenarioEligible SNAP_TOLERANCE 5 5)
     (callScenarios (addImage initialEditor (newImage ''img-1'' [] 5 5 200 150)) ''img-2'' 5 5 50 50) =
     [True, True, True, True] \<and>
   map (scenarioScore 5 5)
     (callScenarios (addImage initialEditor (newImage ''img-1'' [] 5 5 200 150)) ''img-2'' 5 5 50 50) =
     [10, 5, 5, 5] \<and>
   applySnapping (addImage initialEditor (newImage ''img-1'' [] 5 5 200 150)) ''img-2'' 5 5 50 50 =
     \<lparr>pos_x = 5, pos_y = 0\<rparr>"
proof -
  let ?st = "addImage initialEditor (newImage ''img-1'' [] 5 5 200 150)"
  let ?scs = "callScenarios ?st ''img-2'' 5 5 50 50"
  have h1: "snapEnabled ?st" by (simp add: fixture_defs)
  have h2: "cs_width (canvasSize ?st) \<noteq> 0" by (simp add: fixture_defs)
  have h3: "cs_height (canvasSize ?st) \<noteq> 0" by (simp add: fixture_defs)
  have scs: "?scs = [\<lparr>sc_x = 0, sc_y = 0, priority = 1\<rparr>, \<lparr>sc_x = 5, sc_y = 0, priority = 1\<rparr>,
      \<lparr>sc_x = 5, sc_y = 5, priority = 2\<rparr>, \<lparr>sc_x = 0, sc_y = 5, priority = 1\<rparr>]"
    by (simp add: callScenarios_def getSnapPoints_def pushImagePoints_def push_def
          snapScenarios_def SNAP_TOLERANCE_def Let_def fixture_defs)
  have k: "1 < length ?scs" by (simp add: scs)
  have eligible: "scenarioEligible SNAP_TOLERANCE 5 5 (?scs ! 1)"
    by (simp add: scs scenarioEligible_def SNAP_TOLERANCE_def)
  have least: "\<forall>s'\<in>set ?scs. scenarioEligible SNAP_TOLERANCE 5 5 s' \<longrightarrow>
      scenarioScore 5 5 (?scs ! 1) \<le> scenarioScore 5 5 s'"
    by (simp add: scs scenarioScore_def)
  have earliest: "\<forall>p\<in>set (take 1 ?scs). scenarioEligible SNAP_TOLERANCE 5 5 p \<longrightarrow>
      scenarioScore 5 5 p \<noteq> scenarioScore 5 5 (?scs ! 1)"
    by (simp add: scs scenarioScore_def)
  have all: "map (scenarioEligible SNAP_TOLERANCE 5 5) ?scs = [True, True, True, True]"
    by (simp add: scs scenarioEligible_def SNAP_TOLERANCE_def)
  have scores: "map (scenarioScore 5 5) ?scs = [10, 5, 5, 5]"
    by (simp add: scs scenarioScore_def)
  from applySnapping_tie_break [OF h1 h2 h3 k eligible least earliest]
  have "applySnapping ?st ''img-2'' 5 5 50 50 = scenarioPosition (?scs ! 1)"
    by (rule conjunct2)
  then have "applySnapping ?st ''img-2'' 5 5 50 50 = \<lparr>pos_x = 5, pos_y = 0\<rparr>"
    by (simp add: scs scenarioPosition_def)
  with scs all scores show ?thesis by simp
qed

section \<open>The selection loop on JavaScript numbers\<close>

lemma snapToValueJS_finite:
  "0 \<le> t \<Longrightarrow> \<exists>v'. snapToValueJS (Finite v) ps (Finite t) = Finite v' \<and> \<bar>v' - v\<bar> \<le> t"
proof (induction ps)
  case Nil
  then show ?case by simp
next
  case (Cons p ps)
  then show ?case
    by (cases p) (auto simp add: jsSub_def)
qed

lemma considerScenarioJS_unchanged_or_finite:
  assumes "priority s = Finite p"
  shows "considerScenarioJS (Finite x) (Finite y) best s = best \<or>
     (\<exists>rx ry. sc_x s = Finite rx \<and> sc_y s = Finite ry \<and>
        scenarioEligibleJS SNAP_TOLERANCE_JS (Finite x) (Finite y) s \<and>
        scenarioScoreJS (Finite x) (Finite y) s = Finite (\<bar>rx - x\<bar> + \<bar>ry - y\<bar> + (p - 1) * 5) \<and>
        jsLt (Finite (\<bar>rx - x\<bar> + \<bar>ry - y\<bar> + (p - 1) * 5)) (minDistanceJS best) \<and>
        \<bar>rx - x\<bar> + \<bar>ry - y\<bar> + (p - 1) * 5 < 50 \<and>
        considerScenarioJS (Finite x) (Finite y) best s =
          \<lparr>bestSnapJS = \<lparr>pos_x = Finite rx, pos_y = Finite ry\<rparr>,
           minDistanceJS = Finite (\<bar>rx - x\<bar> + \<bar>ry - y\<bar> + (p - 1) * 5)\<rparr>)"
  using assms
  by (cases "sc_x s"; cases "sc_y s")
     (auto simp add: considerScenarioJS_def scenarioEligibleJS_def scenarioScoreJS_def
        jsSub_def Let_def)

lemma considerScenarioJS_keeps:
  assumes kept: "keptJS x y S best" and p: "priority s = Finite p" "1 \<le> p"
  shows "keptJS x y (insert s S) (considerScenarioJS (Finite x) (Finite y) best s)"
proof -
  from considerScenarioJS_unchanged_or_finite [OF p(1), of x y best]
  show ?thesis
  proof (elim disjE exE conjE)
    assume "considerScenarioJS (Finite x) (Finite y) best s = best"
    with kept show ?thesis unfolding keptJS_def by auto
  next
    fix rx ry
    let ?a = "\<bar>rx - x\<bar> + \<bar>ry - y\<bar> + (p - 1) * 5"
    assume s: "sc_x s = Finite rx" "sc_y s = Finite ry"
      and e: "scenarioEligibleJS SNAP_TOLERANCE_JS (Finite x) (Finite y) s"
      and sc: "scenarioScoreJS (Finite x) (Finite y) s = Finite ?a"
      and lt: "jsLt (Finite ?a) (minDistanceJS best)"
      and res: "considerScenarioJS (Finite x) (Finite y) best s =
          \<lparr>bestSnapJS = \<lparr>pos_x = Finite rx, pos_y = Finite ry\<rparr>, minDistanceJS = Finite ?a\<rparr>"
    from kept obtain m where "minDistanceJS best = Finite m" "m \<le> 20"
      unfolding keptJS_def by auto
    with lt have "?a \<le> 20" by simp
    moreover from p(2) have "\<bar>rx - x\<bar> + \<bar>ry - y\<bar> \<le> ?a" by simp
    ultimately show ?thesis
      unfolding keptJS_def using s e sc res by auto
  qed
qed

lemma foldl_considerScenarioJS_keeps:
  "keptJS x y S best \<Longrightarrow> \<forall>s\<in>set scs. \<exists>p. priority s = Finite p \<and> 1 \<le> p \<Longrightarrow>
   keptJS x y (S \<union> set scs) (foldl (considerScenarioJS (Finite x) (Finite y)) best scs)"
proof (induction scs arbitrary: S best)
  case Nil
  then show ?case by simp
next
  case (Cons s scs)
  from Cons.prems(2) obtain p where p: "priority s = Finite p" "1 \<le> p" by auto
  from Cons.prems(1) p
  have "keptJS x y (insert s S) (considerScenarioJS (Finite x) (Finite y) best s)"
    by (rule considerScenarioJS_keeps)
  from Cons.IH [OF this] Cons.prems(2) show ?case by simp
qed

lemma considerScenarioJS_first:
  assumes "\<bar>lx - x\<bar> \<le> 10" and "\<bar>ly - y\<bar> \<le> 10"
  shows "keptJS x y {\<lparr>sc_x = Finite lx, sc_y = Finite ly, priority = Finite 1\<rparr>}
     (considerScenarioJS (Finite x) (Finite y)
        \<lparr>bestSnapJS = \<lparr>pos_x = Finite x, pos_y = Finite y\<rparr>, minDistanceJS = PosInfinity\<rparr>
        \<lparr>sc_x = Finite lx, sc_y = Finite ly, priority = Finite 1\<rparr>)"
  using assms
  by (simp add: keptJS_def considerScenarioJS_def scenarioEligibleJS_def scenarioScoreJS_def
        SNAP_TOLERANCE_JS_def jsSub_def Let_def)

lemma snapScenariosJS_shape:
  "\<exists>s2 s3 s4. snapScenariosJS sp newX newY width height =
     [\<lparr>sc_x = snapToValueJS newX (vertical sp) SNAP_TOLERANCE_JS,
       sc_y = snapToValueJS newY (horizontal sp) SNAP_TOLERANCE_JS, priority = Finite 1\<rparr>,
      s2, s3, s4] \<and>
     (\<forall>s\<in>set [s2, s3, s4]. \<exists>p. priority s = Finite p \<and> 1 \<le> p)"
  by (simp add: snapScenariosJS_def)

section \<open>Bounded displacement\<close>

text \<open>
  Claim C9 (corrected). With snapping enabled, canvas dimensions that pass the guard
  (neither zero nor \<^verbatim>\<open>NaN\<close>) and a finite proposed position \<open>(x, y)\<close>, whatever the
  width, the height and the placed objects are: the returned position is finite and at
  most twice the tolerance (20 units) from the proposed one, the two axis distances
  added. The left-edge scenario, the first of the list, is finite and within the
  tolerance 10 on both axes, so it is eligible with a score of at most 20, below 50;
  hence the loop always keeps a scenario (\<^verbatim>\<open>minDistance\<close> does not stay \<^verbatim>\<open>Infinity\<close>),
  and the result is the position of one of the four scenarios, eligible and of score
  at most 20. Finite arithmetic is taken exactly.
\<close>

theorem applySnapping_bounded_displacement:
  assumes "snapEnabled st"
    and "\<not> jsFalsy (cs_width (canvasSize st))" and "\<not> jsFalsy (cs_height (canvasSize st))"
  shows "\<exists>rx ry lx ly.
     applySnappingJS st imageId (Finite x) (Finite y) width height =
       \<lparr>pos_x = Finite rx, pos_y = Finite ry\<rparr> \<and>
     \<bar>rx - x\<bar> + \<bar>ry - y\<bar> \<le> 20 \<and>
     SNAP_TOLERANCE_JS = Finite 10 \<and>
     hd (callScenariosJS st imageId (Finite x) (Finite y) width height) =
       \<lparr>sc_x = Finite lx, sc_y = Finite ly, priority = Finite 1\<rparr> \<and>
     \<bar>lx - x\<bar> \<le> 10 \<and> \<bar>ly - y\<bar> \<le> 10 \<and>
     scenarioEligibleJS SNAP_TOLERANCE_JS (Finite x) (Finite y)
       (hd (callScenariosJS st imageId (Finite x) (Finite y) width height)) \<and>
     jsLe (scenarioScoreJS (Finite x) (Finite y)
       (hd (callScenariosJS st imageId (Finite x) (Finite y) width height))) (Finite 20) \<and>
     (\<exists>s\<in>set (callScenariosJS st imageId (Finite x) (Finite y) width height).
        sc_x s = Finite rx \<and> sc_y s = Finite ry \<and>
        scenarioEligibleJS SNAP_TOLERANCE_JS (Finite x) (Finite y) s \<and>
        jsLe (scenarioScoreJS (Finite x) (Finite y) s) (Finite 20)) \<and>
     minDistanceJS (selectBestJS (Finite x) (Finite y)
       (callScenariosJS st imageId (Finite x) (Finite y) width height)) \<noteq> PosInfinity"
proof -
  let ?sp = "getSnapPointsJS st (Some imageId)"
  let ?scs = "callScenariosJS st imageId (Finite x) (Finite y) width height"
  let ?init = "\<lparr>bestSnapJS = \<lparr>pos_x = Finite x, pos_y = Finite y\<rparr>, minDistanceJS = PosInfinity\<rparr>"
  have tol: "SNAP_TOLERANCE_JS = Finite 10" by (simp add: SNAP_TOLERANCE_JS_def)
  from snapToValueJS_finite [of 10 x "vertical ?sp"]
  obtain lx where lx: "snapToValueJS (Finite x) (vertical ?sp) SNAP_TOLERANCE_JS = Finite lx"
    "\<bar>lx - x\<bar> \<le> 10"
    by (auto simp add: tol)
  from snapToValueJS_finite [of 10 y "horizontal ?sp"]
  obtain ly where ly: "snapToValueJS (Finite y) (horizontal ?sp) SNAP_TOLERANCE_JS = Finite ly"
    "\<bar>ly - y\<bar> \<le> 10"
    by (auto simp add: tol)
  let ?left = "\<lparr>sc_x = Finite lx, sc_y = Finite ly, priority = Finite 1\<rparr>"
  from snapScenariosJS_shape [of ?sp "Finite x" "Finite y" width height] lx(1) ly(1)
  obtain s2 s3 s4 where scs: "?scs = [?left, s2, s3, s4]"
    and rest: "\<forall>s\<in>set [s2, s3, s4]. \<exists>p. priority s = Finite p \<and> 1 \<le> p"
    unfolding callScenariosJS_def by auto
  have "keptJS x y {?left} (considerScenarioJS (Finite x) (Finite y) ?init ?left)"
    using lx(2) ly(2) by (rule considerScenarioJS_first)
  from foldl_considerScenarioJS_keeps [OF this rest]
  have "keptJS x y ({?left} \<union> set [s2, s3, s4])
      (foldl (considerScenarioJS (Finite x) (Finite y)) ?init [?left, s2, s3, s4])"
    by simp
  moreover have "{?left} \<union> set [s2, s3, s4] = set ?scs"
    by (simp only: scs) auto
  ultimately have "keptJS x y (set ?scs) (selectBestJS (Finite x) (Finite y) ?scs)"
    by (simp only: selectBestJS_def scs)
  then obtain s rx ry m where s: "s \<in> set ?scs" "sc_x s = Finite rx" "sc_y s = Finite ry"
    and best: "bestSnapJS (selectBestJS (Finite x) (Finite y) ?scs) =
      \<lparr>pos_x = Finite rx, pos_y = Finite ry\<rparr>"
    and e: "scenarioEligibleJS SNAP_TOLERANCE_JS (Finite x) (Finite y) s"
    and score: "scenarioScoreJS (Finite x) (Finite y) s = Finite m"
    and m: "minDistanceJS (selectBestJS (Finite x) (Finite y) ?scs) = Finite m" "m \<le> 20"
      "\<bar>rx - x\<bar> + \<bar>ry - y\<bar> \<le> m"
    unfolding keptJS_def by blast
  have res: "applySnappingJS st imageId (Finite x) (Finite y) width height =
      \<lparr>pos_x = Finite rx, pos_y = Finite ry\<rparr>"
    using assms best by (simp add: applySnappingJS_def callScenariosJS_def)
  have dist: "\<bar>rx - x\<bar> + \<bar>ry - y\<bar> \<le> 20"
    using m(2,3) by simp
  have hd: "hd ?scs = ?left" by (simp add: scs)
  have le: "scenarioEligibleJS SNAP_TOLERANCE_JS (Finite x) (Finite y) (hd ?scs)"
    using lx(2) by (simp add: hd scenarioEligibleJS_def tol jsSub_def)
  have ls: "jsLe (scenarioScoreJS (Finite x) (Finite y) (hd ?scs)) (Finite 20)"
    using lx(2) ly(2) by (simp add: hd scenarioScoreJS_def jsSub_def)
  have ex: "\<exists>s\<in>set ?scs. sc_x s = Finite rx \<and> sc_y s = Finite ry \<and>
      scenarioEligibleJS SNAP_TOLERANCE_JS (Finite x) (Finite y) s \<and>
      jsLe (scenarioScoreJS (Finite x) (Finite y) s) (Finite 20)"
    using s e score m(2) by auto
  have kept: "minDistanceJS (selectBestJS (Finite x) (Finite y) ?scs) \<noteq> PosInfinity"
    by (simp add: m(1))
  from res dist tol hd lx(2) ly(2) le ls ex kept show ?thesis
    by blast
qed

theorem applySnapping_bounded_displacement_witness:
  "snapEnabled exampleEditorJS \<and>
   \<not> jsFalsy (cs_width (canvasSize exampleEditorJS)) \<and>
   \<not> jsFalsy (cs_height (canvasSize exampleEditorJS)) \<and>
   applySnappingJS exampleEditorJS ''img-2'' (Finite 105) (Finite 98) (Finite 50) (Finite 50) =
     \<lparr>pos_x = Finite 105, pos_y = Finite 100\<rparr> \<and>
   minDistanceJS (selectBestJS (Finite 105) (Finite 98)
     (callScenariosJS exampleEditorJS ''img-2'' (Finite 105) (Finite 98) (Finite 50) (Finite 50)))
     \<noteq> PosInfinity \<and>
   (\<exists>rx ry. applySnappingJS exampleEditorJS ''img-2'' (Finite 105) (Finite 98) NaN PosInfinity =
       \<lparr>pos_x = Finite rx, pos_y = Finite ry\<rparr> \<and> \<bar>rx - 105\<bar> + \<bar>ry - 98\<bar> \<le> 20)"
proof -
  have h1: "snapEnabled exampleEditorJS" by (simp add: exampleEditorJS_def)
  have h2: "\<not> jsFalsy (cs_width (canvasSize exampleEditorJS))"
    by (simp add: exampleEditorJS_def)
  have h3: "\<not> jsFalsy (cs_height (canvasSize exampleEditorJS))"
    by (simp add: exampleEditorJS_def)
  have result: "applySnappingJS exampleEditorJS ''img-2'' (Finite 105) (Finite 98) (Finite 50)
      (Finite 50) = \<lparr>pos_x = Finite 105, pos_y = Finite 100\<rparr>"
    by (simp add: applySnappingJS_def getSnapPointsJS_def pushImagePointsJS_def push_def
          snapScenariosJS_def selectBestJS_def considerScenarioJS_def SNAP_TOLERANCE_JS_def
          jsSub_def Let_def exampleEditorJS_def)
  from applySnapping_bounded_displacement
    [OF h1 h2 h3, of "''img-2''" 105 98 "Finite 50" "Finite 50"]
  have kept: "minDistanceJS (selectBestJS (Finite 105) (Finite 98)
      (callScenariosJS exampleEditorJS ''img-2'' (Finite 105) (Finite 98) (Finite 50) (Finite 50)))
      \<noteq> PosInfinity"
    by blast
  from applySnapping_bounded_displacement [OF h1 h2 h3, of "''img-2''" 105 98 NaN PosInfinity]
  have odd: "\<exists>rx ry. applySnappingJS exampleEditorJS ''img-2'' (Finite 105) (Finite 98) NaN
      PosInfinity = \<lparr>pos_x = Finite rx, pos_y = Finite ry\<rparr> \<and> \<bar>rx - 105\<bar> + \<bar>ry - 98\<bar> \<le> 20"
    by blast
  from h1 h2 h3 result kept odd show ?thesis by blast
qed

theorem applySnapping_bounded_displacement_counterexample:
  "snapEnabled exampleEditorJS \<and>
   \<not> jsFalsy (cs_width (canvasSize exampleEditorJS)) \<and>
   \<not> jsFalsy (cs_height (canvasSize exampleEditorJS)) \<and>
   applySnappingJS exampleEditorJS ''img-2'' NaN (Finite 98) (Finite 50) (Finite 50) =
     \<lparr>pos_x = NaN, pos_y = Finite 98\<rparr> \<and>
   minDistanceJS (selectBestJS NaN (Finite 98)
     (callScenariosJS exampleEditorJS ''img-2'' NaN (Finite 98) (Finite 50) (Finite 50))) =
     PosInfinity \<and>
   \<not> jsLe (jsAdd
       (jsAbs (jsSub (pos_x (applySnappingJS exampleEditorJS ''img-2'' NaN (Finite 98)
          (Finite 50) (Finite 50))) NaN))
       (jsAbs (jsSub (pos_y (applySnappingJS exampleEditorJS ''img-2'' NaN (Finite 98)
          (Finite 50) (Finite 50))) (Finite 98))))
     (Finite 20) \<and>
   cs_width (canvasSize
     (exampleEditorJS\<lparr>canvasSize := \<lparr>cs_width = NaN, cs_height = Finite 600\<rparr>\<rparr>)) \<noteq> Finite 0 \<and>
   applySnappingJS (exampleEditorJS\<lparr>canvasSize := \<lparr>cs_width = NaN, cs_height = Finite 600\<rparr>\<rparr>)
     ''img-2'' (Finite 105) (Finite 98) (Finite 180) (Finite 50) =
     \<lparr>pos_x = Finite 105, pos_y = Finite 98\<rparr> \<and>
   callScenariosJS (exampleEditorJS\<lparr>canvasSize := \<lparr>cs_width = NaN, cs_height = Finite 600\<rparr>\<rparr>)
     ''img-2'' (Finite 105) (Finite 98) (Finite 180) (Finite 50) =
     [\<lparr>sc_x = Finite 100, sc_y = Finite 100, priority = Finite 1\<rparr>,
      \<lparr>sc_x = Finite 105, sc_y = Finite 100, priority = Finite 1\<rparr>,
      \<lparr>sc_x = Finite 110, sc_y = Finite 98, priority = Finite 2\<rparr>,
      \<lparr>sc_x = Finite 100, sc_y = Finite 98, priority = Finite 1\<rparr>]"
  by (simp add: applySnappingJS_def callScenariosJS_def getSnapPointsJS_def
        pushImagePointsJS_def push_def snapScenariosJS_def selectBestJS_def
        considerScenarioJS_def SNAP_TOLERANCE_JS_def jsSub_def Let_def exampleEditorJS_def)

end
